theory Spec2Isabelle
  imports Main "HOL-Library.Word"
begin

section \<open>ChartMuseum multitenant request handlers\<close>

text \<open>
  A shallow embedding of \<^verbatim>\<open>pkg/chartmuseum/server/multitenant/handlers.go\<close>.
  Every handler becomes a function from the server, the request context and the
  state of the storage backend to the response it sends and the state it leaves.
  The collaborators the handlers call through interfaces or other packages
  (the storage backend, the filename functions of \<^verbatim>\<open>cm_repo\<close>, the index) are
  parameters, so that the theorems hold for every implementation of them.
\<close>

subsection \<open>Values\<close>

type_synonym byte = "8 word"

text \<open>A Go \<^verbatim>\<open>error\<close> is shown only through its message (\<^verbatim>\<open>fmt.Sprintf("%s", err)\<close>).\<close>

datatype error = errorString string

fun Error :: "error \<Rightarrow> string" where
  "Error (errorString msg) = msg"

text \<open>\<^verbatim>\<open>gin.H\<close> is a \<^verbatim>\<open>map[string]interface{}\<close>; the handlers only build one-entry maps.\<close>

datatype jvalue = JBool bool | JString string

type_synonym gin_H = "(string \<times> jvalue) list"

definition objectSavedResponse :: gin_H where
  "objectSavedResponse = [(''saved'', JBool True)]"

definition objectDeletedResponse :: gin_H where
  "objectDeletedResponse = [(''deleted'', JBool True)]"

definition notFoundErrorResponse :: gin_H where
  "notFoundErrorResponse = [(''error'', JString ''not found'')]"

definition alreadyExistsErrorResponse :: gin_H where
  "alreadyExistsErrorResponse = [(''error'', JString ''file already exists'')]"

record HTTPError =
  Status :: int
  Message :: string

record packageOrProvenanceFile =
  filename :: string
  content :: "byte list"
  field :: string

type_synonym filenameFromContentFn = "byte list \<Rightarrow> error + string"

text \<open>What a handler writes with \<^verbatim>\<open>c.JSON(status, obj)\<close>: the status and the object.\<close>

datatype 'cv payload = H gin_H | ChartVersionJSON 'cv

datatype 'cv response = JSON int "'cv payload"

subsection \<open>\<^verbatim>\<open>path.Join\<close> of the Go standard library\<close>

text \<open>
  \<^verbatim>\<open>path.Join\<close> ignores empty elements, joins the others with a slash and cleans the
  result: \<^verbatim>\<open>path.Clean\<close> drops empty and \<^verbatim>\<open>.\<close> elements, resolves an inner \<^verbatim>\<open>..\<close>
  against the element before it, drops \<^verbatim>\<open>..\<close> at the start of a rooted path, and
  returns \<^verbatim>\<open>.\<close> for an empty result.
\<close>

fun elements :: "string \<Rightarrow> string \<Rightarrow> string list" where
  "elements cur [] = [cur]"
| "elements cur (c # cs) =
     (if c = CHR ''/'' then cur # elements [] cs else elements (cur @ [c]) cs)"

fun clean_element :: "bool \<Rightarrow> string list \<Rightarrow> string \<Rightarrow> string list" where
  "clean_element rooted out e =
     (if e = [] then out
      else if e = ''.'' then out
      else if e = ''..'' then
        (case rev out of
           [] \<Rightarrow> (if rooted then out else out @ [e])
         | l # _ \<Rightarrow> (if l = ''..'' then out @ [e] else butlast out))
      else out @ [e])"

fun join_slash :: "string list \<Rightarrow> string" where
  "join_slash [] = []"
| "join_slash [e] = e"
| "join_slash (e # es) = e @ ''/'' @ join_slash es"

definition pathutil_Clean :: "string \<Rightarrow> string" where
  "pathutil_Clean p =
     (if p = [] then ''.''
      else
        let rooted = (hd p = CHR ''/'');
            out = foldl (clean_element rooted) [] (elements [] p);
            res = (if rooted then ''/'' else []) @ join_slash out
        in if res = [] then ''.'' else res)"

definition pathutil_Join :: "string \<Rightarrow> string \<Rightarrow> string" where
  "pathutil_Join a b =
     (if a = [] \<and> b = [] then []
      else pathutil_Clean (if a = [] then b else a @ ''/'' @ b))"

subsection \<open>The storage backend\<close>

text \<open>
  \<^verbatim>\<open>server.StorageBackend\<close> is an interface value. Its three methods are functions on
  a backend state \<open>'s\<close> of any type; each returns its Go result and the state it
  leaves. Every call a handler makes is also appended to a log, so that which
  calls were made, on which keys and in which order, can be stated.
\<close>

record 's Backend =
  GetObject :: "string \<Rightarrow> 's \<Rightarrow> (error + byte list) \<times> 's"
  PutObject :: "string \<Rightarrow> byte list \<Rightarrow> 's \<Rightarrow> error option \<times> 's"
  DeleteObject :: "string \<Rightarrow> 's \<Rightarrow> error option \<times> 's"

datatype storage_call =
  GetCall string
| PutCall string "byte list"
| DeleteCall string

type_synonym 's world = "'s \<times> storage_call list"

definition call_GetObject ::
  "'s Backend \<Rightarrow> string \<Rightarrow> 's world \<Rightarrow> (error + byte list) \<times> 's world" where
  "call_GetObject be key w =
     (case GetObject be key (fst w) of
        (r, s') \<Rightarrow> (r, (s', snd w @ [GetCall key])))"

definition call_PutObject ::
  "'s Backend \<Rightarrow> string \<Rightarrow> byte list \<Rightarrow> 's world \<Rightarrow> error option \<times> 's world" where
  "call_PutObject be key data w =
     (case PutObject be key data (fst w) of
        (r, s') \<Rightarrow> (r, (s', snd w @ [PutCall key data])))"

definition call_DeleteObject ::
  "'s Backend \<Rightarrow> string \<Rightarrow> 's world \<Rightarrow> error option \<times> 's world" where
  "call_DeleteObject be key w =
     (case DeleteObject be key (fst w) of
        (r, s') \<Rightarrow> (r, (s', snd w @ [DeleteCall key])))"

subsection \<open>The server, the filename functions and the request context\<close>

text \<open>
  An index file is used through its method \<^verbatim>\<open>Get(name, version)\<close> only; the method
  belongs to the Helm library, so it is a field here.
\<close>

record 'cv IndexFile =
  Get :: "string \<Rightarrow> string \<Rightarrow> error + 'cv"

text \<open>
  The fields of \<^verbatim>\<open>MultiTenantServer\<close> that the handlers read, and its method
  \<^verbatim>\<open>getIndexFile\<close>, which is defined in another file of the package: the field gives
  what the method returns for a tenant at the time of the request. Calls to the
  logger are left out.
\<close>

record ('s, 'cv) MultiTenantServer =
  StorageBackend :: "'s Backend"
  AllowOverwrite :: bool
  ChartPostFormFieldName :: string
  ProvPostFormFieldName :: string
  getIndexFile :: "string \<Rightarrow> HTTPError + 'cv IndexFile"

text \<open>The four functions of package \<^verbatim>\<open>cm_repo\<close> that the handlers call.\<close>

record cm_repo =
  ChartPackageFilenameFromContent :: filenameFromContentFn
  ProvenanceFilenameFromContent :: filenameFromContentFn
  ChartPackageFilenameFromNameVersion :: "string \<Rightarrow> string \<Rightarrow> string"
  ProvenanceFilenameFromNameVersion :: "string \<Rightarrow> string \<Rightarrow> string"

text \<open>
  \<^verbatim>\<open>req.FormFile(field)\<close> returns a file, a header and an error. A file is modelled by
  what \<^verbatim>\<open>io.Copy\<close> gets out of it: its bytes or a read error. The header is not
  read by the handlers, only compared with \<^verbatim>\<open>nil\<close>.
\<close>

type_synonym multipart_File = "error + byte list"

record http_Request =
  FormFile :: "string \<Rightarrow> multipart_File option \<times> unit option \<times> error option"

record gin_Context =
  Keys :: "string \<rightharpoonup> string"
  Params :: "(string \<times> string) list"
  ContentType :: string
  Request :: http_Request
  GetRawData :: "error + byte list"

definition GetString :: "gin_Context \<Rightarrow> string \<Rightarrow> string" where
  "GetString c key = (case Keys c key of Some v \<Rightarrow> v | None \<Rightarrow> [])"

definition Param :: "gin_Context \<Rightarrow> string \<Rightarrow> string" where
  "Param c key = (case map_of (Params c) key of Some v \<Rightarrow> v | None \<Rightarrow> [])"

subsection \<open>Reading a chart version\<close>

definition getChartVersionRequestHandler ::
  "('s, 'cv) MultiTenantServer \<Rightarrow> gin_Context \<Rightarrow> 's world \<Rightarrow> 'cv response \<times> 's world" where
  "getChartVersionRequestHandler server c w =
     (let repo = GetString c ''repo'';
          name = Param c ''name'';
          version = Param c ''version'';
          version = (if version = ''latest'' then [] else version)
      in case getIndexFile server repo of
           Inl err \<Rightarrow> (JSON (Status err) (H [(''error'', JString (Message err))]), w)
         | Inr indexFile \<Rightarrow>
             (case Get indexFile name version of
                Inl getErr \<Rightarrow> (JSON 404 (H [(''error'', JString ''not found'')]), w)
              | Inr chartVersion \<Rightarrow> (JSON 200 (ChartVersionJSON chartVersion), w)))"

subsection \<open>Deleting a chart version\<close>

definition deleteChartVersionRequestHandler ::
  "('s, 'cv) MultiTenantServer \<Rightarrow> cm_repo \<Rightarrow> gin_Context \<Rightarrow> 's world
     \<Rightarrow> 'cv response \<times> 's world" where
  "deleteChartVersionRequestHandler server cm c w =
     (let repo = GetString c ''repo'';
          name = Param c ''name'';
          version = Param c ''version'';
          filename' = pathutil_Join repo (ChartPackageFilenameFromNameVersion cm name version)
      in case call_DeleteObject (StorageBackend server) filename' w of
           (Some err, w1) \<Rightarrow> (JSON 404 (H [(''error'', JString ''not found'')]), w1)
         | (None, w1) \<Rightarrow>
             (let provFilename =
                    pathutil_Join repo (ProvenanceFilenameFromNameVersion cm name version);
                  w2 = snd (call_DeleteObject (StorageBackend server) provFilename w1)
              in (JSON 200 (H [(''deleted'', JBool True)]), w2)))"

subsection \<open>Uploading through a form\<close>

text \<open>
  \<^verbatim>\<open>extractAndValidateFormFile\<close> returns a pointer to a file (\<^verbatim>\<open>nil\<close> is \<open>None\<close>), a
  status and an error. The error of \<^verbatim>\<open>req.FormFile\<close> is assigned to \<^verbatim>\<open>_\<close>.
\<close>

definition extractAndValidateFormFile ::
  "('s, 'cv) MultiTenantServer \<Rightarrow> http_Request \<Rightarrow> string \<Rightarrow> filenameFromContentFn \<Rightarrow> 's world
     \<Rightarrow> (packageOrProvenanceFile option \<times> int \<times> error option) \<times> 's world" where
  "extractAndValidateFormFile server req field' fnFromContent w =
     (case FormFile req field' of
        (None, _, _) \<Rightarrow> ((None, 200, None), w)
      | (Some _, None, _) \<Rightarrow> ((None, 200, None), w)
      | (Some file, Some _, _) \<Rightarrow>
          (case file of
             Inl err \<Rightarrow> ((None, 500, Some err), w)
           | Inr content' \<Rightarrow>
               (case fnFromContent content' of
                  Inl err \<Rightarrow> ((None, 400, Some err), w)
                | Inr filename' \<Rightarrow>
                    (if \<not> AllowOverwrite server then
                       (case call_GetObject (StorageBackend server) filename' w of
                          (Inr _, w1) \<Rightarrow>
                            ((None, 409, Some (errorString (filename' @ '' already exists''))), w1)
                        | (Inl _, w1) \<Rightarrow>
                            ((Some \<lparr>filename = filename', content = content', field = field'\<rparr>,
                              200, None), w1))
                     else
                       ((Some \<lparr>filename = filename', content = content', field = field'\<rparr>,
                         200, None), w)))))"

text \<open>The first loop of the form handler: one extraction per configured field.\<close>

fun extractFiles ::
  "('s, 'cv) MultiTenantServer \<Rightarrow> http_Request \<Rightarrow> (string \<times> filenameFromContentFn) list
     \<Rightarrow> packageOrProvenanceFile list \<Rightarrow> 's world
     \<Rightarrow> ('cv response + packageOrProvenanceFile list) \<times> 's world" where
  "extractFiles server req [] ppFiles w = (Inr ppFiles, w)"
| "extractFiles server req (ff # ffp) ppFiles w =
     (case extractAndValidateFormFile server req (fst ff) (snd ff) w of
        ((ppf, status, Some err), w1) \<Rightarrow>
          (Inl (JSON status (H [(''error'', JString (Error err))])), w1)
      | ((ppf, status, None), w1) \<Rightarrow>
          extractFiles server req ffp
            (case ppf of Some f \<Rightarrow> ppFiles @ [f] | None \<Rightarrow> ppFiles) w1)"

text \<open>The clean-up loop: one delete per stored file, each result dropped.\<close>

fun cleanUp :: "'s Backend \<Rightarrow> packageOrProvenanceFile list \<Rightarrow> 's world \<Rightarrow> 's world" where
  "cleanUp be [] w = w"
| "cleanUp be (ppf # storedFiles) w =
     cleanUp be storedFiles (snd (call_DeleteObject be (filename ppf) w))"

text \<open>The second loop: one write per extracted file, with the clean-up at the first failure.\<close>

fun storeFiles ::
  "('s, 'cv) MultiTenantServer \<Rightarrow> string \<Rightarrow> packageOrProvenanceFile list
     \<Rightarrow> packageOrProvenanceFile list \<Rightarrow> 's world \<Rightarrow> 'cv response \<times> 's world" where
  "storeFiles server repo [] storedFiles w = (JSON 201 (H objectSavedResponse), w)"
| "storeFiles server repo (ppf # ppFiles) storedFiles w =
     (case call_PutObject (StorageBackend server)
             (pathutil_Join repo (filename ppf)) (content ppf) w of
        (None, w1) \<Rightarrow> storeFiles server repo ppFiles (storedFiles @ [ppf]) w1
      | (Some err, w1) \<Rightarrow>
          (JSON 500 (H [(''error'', JString (Error err))]),
           cleanUp (StorageBackend server) storedFiles w1))"

definition postPackageAndProvenanceRequestHandler ::
  "('s, 'cv) MultiTenantServer \<Rightarrow> cm_repo \<Rightarrow> gin_Context \<Rightarrow> 's world
     \<Rightarrow> 'cv response \<times> 's world" where
  "postPackageAndProvenanceRequestHandler server cm c w =
     (let repo = GetString c ''repo'';
          ffp = [(ChartPostFormFieldName server, ChartPackageFilenameFromContent cm),
                 (ProvPostFormFieldName server, ProvenanceFilenameFromContent cm)]
      in case extractFiles server (Request c) ffp [] w of
           (Inl resp, w1) \<Rightarrow> (resp, w1)
         | (Inr ppFiles, w1) \<Rightarrow>
             (if length ppFiles = 0 then
                (JSON 400 (H [(''error'', JString
                   (''no package or provenance file found in form fields ''
                      @ ChartPostFormFieldName server @ '' and ''
                      @ ProvPostFormFieldName server))]), w1)
              else storeFiles server repo ppFiles [] w1))"

subsection \<open>Uploading a raw body\<close>

definition postPackageRequestHandler ::
  "('s, 'cv) MultiTenantServer \<Rightarrow> cm_repo \<Rightarrow> gin_Context \<Rightarrow> 's world
     \<Rightarrow> 'cv response \<times> 's world" where
  "postPackageRequestHandler server cm c w =
     (let repo = GetString c ''repo''
      in case GetRawData c of
           Inl err \<Rightarrow> (JSON 500 (H [(''error'', JString (Error err))]), w)
         | Inr content' \<Rightarrow>
             (case ChartPackageFilenameFromContent cm content' of
                Inl err \<Rightarrow> (JSON 500 (H [(''error'', JString (Error err))]), w)
              | Inr filename' \<Rightarrow>
                  (let probe =
                         (if \<not> AllowOverwrite server then
                            (case call_GetObject (StorageBackend server)
                                    (pathutil_Join repo filename') w of
                               (Inr _, w1) \<Rightarrow> (True, w1)
                             | (Inl _, w1) \<Rightarrow> (False, w1))
                          else (False, w))
                   in if fst probe then (JSON 409 (H alreadyExistsErrorResponse), snd probe)
                      else
                        (case call_PutObject (StorageBackend server)
                                (pathutil_Join repo filename') content' (snd probe) of
                           (Some err, w2) \<Rightarrow>
                             (JSON 500 (H [(''error'', JString (Error err))]), w2)
                         | (None, w2) \<Rightarrow> (JSON 201 (H objectSavedResponse), w2)))))"

definition postProvenanceFileRequestHandler ::
  "('s, 'cv) MultiTenantServer \<Rightarrow> cm_repo \<Rightarrow> gin_Context \<Rightarrow> 's world
     \<Rightarrow> 'cv response \<times> 's world" where
  "postProvenanceFileRequestHandler server cm c w =
     (let repo = GetString c ''repo''
      in case GetRawData c of
           Inl err \<Rightarrow> (JSON 500 (H [(''error'', JString (Error err))]), w)
         | Inr content' \<Rightarrow>
             (case ProvenanceFilenameFromContent cm content' of
                Inl err \<Rightarrow> (JSON 500 (H [(''error'', JString (Error err))]), w)
              | Inr filename' \<Rightarrow>
                  (let probe =
                         (if \<not> AllowOverwrite server then
                            (case call_GetObject (StorageBackend server)
                                    (pathutil_Join repo filename') w of
                               (Inr _, w1) \<Rightarrow> (True, w1)
                             | (Inl _, w1) \<Rightarrow> (False, w1))
                          else (False, w))
                   in if fst probe then (JSON 409 (H alreadyExistsErrorResponse), snd probe)
                      else
                        (case call_PutObject (StorageBackend server) filename' content'
                                (snd probe) of
                           (Some err, w2) \<Rightarrow>
                             (JSON 500 (H [(''error'', JString (Error err))]), w2)
                         | (None, w2) \<Rightarrow> (JSON 201 (H objectSavedResponse), w2)))))"

definition postRequestHandler ::
  "('s, 'cv) MultiTenantServer \<Rightarrow> cm_repo \<Rightarrow> gin_Context \<Rightarrow> 's world
     \<Rightarrow> 'cv response \<times> 's world" where
  "postRequestHandler server cm c w =
     (if ContentType c = ''multipart/form-data''
      then postPackageAndProvenanceRequestHandler server cm c w
      else postPackageRequestHandler server cm c w)"

subsection \<open>An object store in memory\<close>

text \<open>
  Modelled from the spec: the object store is an external collaborator whose code
  is not part of the repository; the spec describes it as a key-addressed store with
  \<^verbatim>\<open>get(key) -> bytes | NotFound\<close>, \<^verbatim>\<open>put(key, bytes) -> ok | Err\<close> and
  \<^verbatim>\<open>delete(key) -> ok | Err\<close>, without atomicity across keys. The store below keeps
  its objects in a map. A call listed in \<open>failing\<close> returns that error and changes
  nothing, which stands for a backend failure; a get or a delete of a key that
  holds no object fails as well.
\<close>

record mem_store =
  objects :: "string \<rightharpoonup> byte list"
  failing :: "storage_call \<rightharpoonup> error"

definition ErrNotFound :: error where
  "ErrNotFound = errorString ''object not found''"

definition mem_GetObject :: "string \<Rightarrow> mem_store \<Rightarrow> (error + byte list) \<times> mem_store" where
  "mem_GetObject key s =
     (case failing s (GetCall key) of
        Some err \<Rightarrow> (Inl err, s)
      | None \<Rightarrow>
          (case objects s key of
             None \<Rightarrow> (Inl ErrNotFound, s)
           | Some data \<Rightarrow> (Inr data, s)))"

definition mem_PutObject ::
  "string \<Rightarrow> byte list \<Rightarrow> mem_store \<Rightarrow> error option \<times> mem_store" where
  "mem_PutObject key data s =
     (case failing s (PutCall key data) of
        Some err \<Rightarrow> (Some err, s)
      | None \<Rightarrow> (None, s\<lparr>objects := (objects s)(key \<mapsto> data)\<rparr>))"

definition mem_DeleteObject :: "string \<Rightarrow> mem_store \<Rightarrow> error option \<times> mem_store" where
  "mem_DeleteObject key s =
     (case failing s (DeleteCall key) of
        Some err \<Rightarrow> (Some err, s)
      | None \<Rightarrow>
          (case objects s key of
             None \<Rightarrow> (Some ErrNotFound, s)
           | Some _ \<Rightarrow> (None, s\<lparr>objects := (objects s)(key := None)\<rparr>)))"

definition mem_backend :: "mem_store Backend" where
  "mem_backend =
     \<lparr>GetObject = mem_GetObject, PutObject = mem_PutObject, DeleteObject = mem_DeleteObject\<rparr>"

subsection \<open>A test server\<close>

text \<open>
  Concrete collaborators on which the handlers are run: filename functions that
  reject an empty body and otherwise name every package \<^verbatim>\<open>a-1.tgz\<close> and every
  provenance file \<^verbatim>\<open>a-1.tgz.prov\<close>, a server over the store in memory with the form
  fields \<^verbatim>\<open>chart\<close> and \<^verbatim>\<open>prov\<close>, and the context of a request of a tenant for
  chart \<^verbatim>\<open>a\<close>.
\<close>

definition test_cm_repo :: cm_repo where
  "test_cm_repo =
     \<lparr>ChartPackageFilenameFromContent =
        (\<lambda>b. if b = [] then Inl (errorString ''not a chart'') else Inr ''a-1.tgz''),
      ProvenanceFilenameFromContent =
        (\<lambda>b. if b = [] then Inl (errorString ''not a provenance file'') else Inr ''a-1.tgz.prov''),
      ChartPackageFilenameFromNameVersion = (\<lambda>name version. name @ ''-'' @ version @ ''.tgz''),
      ProvenanceFilenameFromNameVersion =
        (\<lambda>name version. name @ ''-'' @ version @ ''.tgz.prov'')\<rparr>"

definition test_index :: "string IndexFile" where
  "test_index =
     \<lparr>Get = (\<lambda>name version.
        if name = ''a'' \<and> (version = [] \<or> version = ''2'') then Inr ''a-2''
        else if name = ''a'' \<and> version = ''1'' then Inr ''a-1''
        else Inl (errorString ''no chart version found''))\<rparr>"

definition test_server :: "bool \<Rightarrow> (mem_store, string) MultiTenantServer" where
  "test_server allow =
     \<lparr>StorageBackend = mem_backend,
      AllowOverwrite = allow,
      ChartPostFormFieldName = ''chart'',
      ProvPostFormFieldName = ''prov'',
      getIndexFile = (\<lambda>repo.
        if repo = ''t1'' then Inr test_index
        else Inl \<lparr>Status = 500, Message = ''no index''\<rparr>)\<rparr>"

definition ErrMissingFile :: error where
  "ErrMissingFile = errorString ''http: no such file''"

definition absent_part :: "multipart_File option \<times> unit option \<times> error option" where
  "absent_part = (None, None, Some ErrMissingFile)"

definition file_part :: "byte list \<Rightarrow> multipart_File option \<times> unit option \<times> error option" where
  "file_part data = (Some (Inr data), Some (), None)"

definition test_request ::
  "multipart_File option \<times> unit option \<times> error option
     \<Rightarrow> multipart_File option \<times> unit option \<times> error option \<Rightarrow> http_Request" where
  "test_request chartPart provPart =
     \<lparr>FormFile = (\<lambda>name.
        if name = ''chart'' then chartPart
        else if name = ''prov'' then provPart
        else absent_part)\<rparr>"

definition test_context ::
  "string \<Rightarrow> string \<Rightarrow> http_Request \<Rightarrow> error + byte list \<Rightarrow> gin_Context" where
  "test_context repo version req body =
     \<lparr>Keys = [''repo'' \<mapsto> repo],
      Params = [(''name'', ''a''), (''version'', version)],
      ContentType = ''multipart/form-data'',
      Request = req,
      GetRawData = body\<rparr>"

definition test_store :: "(string \<times> byte list) list \<Rightarrow> (storage_call \<times> error) list \<Rightarrow> mem_store" where
  "test_store objs faults = \<lparr>objects = map_of objs, failing = map_of faults\<rparr>"

section \<open>Properties of the handlers\<close>

subsection \<open>Evaluation of the test server\<close>

lemma Join_t1_pkg: "pathutil_Join ''t1'' ''a-1.tgz'' = ''t1/a-1.tgz''"
  by (simp add: pathutil_Join_def pathutil_Clean_def)

lemma Join_t1_prov: "pathutil_Join ''t1'' ''a-1.tgz.prov'' = ''t1/a-1.tgz.prov''"
  by (simp add: pathutil_Join_def pathutil_Clean_def)

lemma test_context_sel:
  "GetString (test_context repo v req body) ''repo'' = repo"
  "Param (test_context repo v req body) ''name'' = ''a''"
  "Param (test_context repo v req body) ''version'' = v"
  "Request (test_context repo v req body) = req"
  "GetRawData (test_context repo v req body) = body"
  by (simp_all add: test_context_def GetString_def Param_def)

lemma mem_sel:
  "GetObject mem_backend = mem_GetObject"
  "PutObject mem_backend = mem_PutObject"
  "DeleteObject mem_backend = mem_DeleteObject"
  by (simp_all add: mem_backend_def)

lemma test_server_sel:
  "StorageBackend (test_server allow) = mem_backend"
  "AllowOverwrite (test_server allow) = allow"
  "ChartPostFormFieldName (test_server allow) = ''chart''"
  "ProvPostFormFieldName (test_server allow) = ''prov''"
  by (simp_all add: test_server_def)

lemma test_cm_repo_sel:
  "ChartPackageFilenameFromNameVersion test_cm_repo ''a'' ''1'' = ''a-1.tgz''"
  "ProvenanceFilenameFromNameVersion test_cm_repo ''a'' ''1'' = ''a-1.tgz.prov''"
  "ChartPackageFilenameFromContent test_cm_repo [] = Inl (errorString ''not a chart'')"
  "ChartPackageFilenameFromContent test_cm_repo (x # xs) = Inr ''a-1.tgz''"
  "ProvenanceFilenameFromContent test_cm_repo [] = Inl (errorString ''not a provenance file'')"
  "ProvenanceFilenameFromContent test_cm_repo (x # xs) = Inr ''a-1.tgz.prov''"
  by (simp_all add: test_cm_repo_def)

lemma test_request_sel:
  "FormFile (test_request chartPart provPart) ''chart'' = chartPart"
  "FormFile (test_request chartPart provPart) ''prov'' = provPart"
  by (simp_all add: test_request_def)

lemma test_store_sel:
  "objects (test_store objs faults) = map_of objs"
  "failing (test_store objs faults) = map_of faults"
  by (simp_all add: test_store_def)

lemma Join_t2_prov: "pathutil_Join ''t2'' ''a-1.tgz.prov'' = ''t2/a-1.tgz.prov''"
  by (simp add: pathutil_Join_def pathutil_Clean_def)

lemmas test_eval =
  test_server_sel test_context_sel test_request_sel test_cm_repo_sel mem_sel
  file_part_def absent_part_def Join_t1_pkg Join_t1_prov

subsection \<open>What one extraction does to the backend\<close>

lemma extract_absent:
  assumes "FormFile req f = (file, header, e)" and "file = None \<or> header = None"
  shows "extractAndValidateFormFile server req f fn w = ((None, 200, None), w)"
  using assms by (auto simp: extractAndValidateFormFile_def split: option.splits)

lemma extract_log:
  assumes "extractAndValidateFormFile server req f fn w = (r, w1)"
  shows "\<exists>keys. snd w1 = snd w @ map GetCall keys"
proof (cases "snd w1 = snd w")
  case True
  then have "snd w1 = snd w @ map GetCall []" by simp
  then show ?thesis by blast
next
  case False
  with assms obtain k where "snd w1 = snd w @ map GetCall [k]"
    by (auto simp: extractAndValidateFormFile_def call_GetObject_def
        split: option.splits sum.splits prod.splits if_splits)
  then show ?thesis by blast
qed

text \<open>The first loop of the form handler, unrolled for its two fields.\<close>

lemma extractFiles_two:
  "extractFiles server req [(f1, fn1), (f2, fn2)] [] w =
     (case extractAndValidateFormFile server req f1 fn1 w of
        ((p1, st1, Some err), w1) \<Rightarrow>
          (Inl (JSON st1 (H [(''error'', JString (Error err))])), w1)
      | ((p1, st1, None), w1) \<Rightarrow>
          (case extractAndValidateFormFile server req f2 fn2 w1 of
             ((p2, st2, Some err), w2) \<Rightarrow>
               (Inl (JSON st2 (H [(''error'', JString (Error err))])), w2)
           | ((p2, st2, None), w2) \<Rightarrow>
               (Inr ((case p1 of Some f \<Rightarrow> [f] | None \<Rightarrow> [])
                     @ (case p2 of Some f \<Rightarrow> [f] | None \<Rightarrow> [])), w2)))"
  by (simp split: prod.splits option.splits)

text \<open>With no file extracted from either field the form handler answers 400.\<close>

lemma no_candidates:
  assumes "extractAndValidateFormFile server (Request c) (ChartPostFormFieldName server)
             (ChartPackageFilenameFromContent cm) w = ((None, 200, None), w)"
    and "extractAndValidateFormFile server (Request c) (ProvPostFormFieldName server)
             (ProvenanceFilenameFromContent cm) w = ((None, 200, None), w)"
  shows "postPackageAndProvenanceRequestHandler server cm c w
     = (JSON 400 (H [(''error'', JString
          (''no package or provenance file found in form fields ''
             @ ChartPostFormFieldName server @ '' and '' @ ProvPostFormFieldName server))]), w)"
  using assms by (simp add: postPackageAndProvenanceRequestHandler_def extractFiles_two)

subsection \<open>Deletion\<close>

text \<open>
  C4. Deleting a chart version first deletes the package object at the tenant-scoped
  key. If that delete fails, the response is 404 "not found" and the delete of the
  package is the only call made to the backend: the provenance delete is not
  attempted. If it succeeds, the provenance object at the tenant-scoped key is
  deleted next, and the response is 200 "deleted" whatever that second delete
  returns (\<open>r\<close> is any result).
\<close>

theorem deleteChartVersion_outcomes:
  assumes "pkgKey = pathutil_Join (GetString c ''repo'')
             (ChartPackageFilenameFromNameVersion cm (Param c ''name'') (Param c ''version''))"
    and "provKey = pathutil_Join (GetString c ''repo'')
             (ProvenanceFilenameFromNameVersion cm (Param c ''name'') (Param c ''version''))"
  shows "(DeleteObject (StorageBackend server) pkgKey s = (Some err, s1) \<longrightarrow>
            deleteChartVersionRequestHandler server cm c (s, log)
              = (JSON 404 (H notFoundErrorResponse), (s1, log @ [DeleteCall pkgKey])))
       \<and> (DeleteObject (StorageBackend server) pkgKey s = (None, s1) \<longrightarrow>
          DeleteObject (StorageBackend server) provKey s1 = (r, s2) \<longrightarrow>
            deleteChartVersionRequestHandler server cm c (s, log)
              = (JSON 200 (H objectDeletedResponse),
                 (s2, log @ [DeleteCall pkgKey, DeleteCall provKey])))"
  using assms
  by (simp add: deleteChartVersionRequestHandler_def call_DeleteObject_def Let_def
      notFoundErrorResponse_def objectDeletedResponse_def)

theorem deleteChartVersion_outcomes_witness:
  "deleteChartVersionRequestHandler (test_server False) test_cm_repo
      (test_context ''t1'' ''1'' (test_request absent_part absent_part) (Inr []))
      (test_store [] [], [])
     = (JSON 404 (H notFoundErrorResponse), (test_store [] [], [DeleteCall ''t1/a-1.tgz'']))
   \<and> deleteChartVersionRequestHandler (test_server False) test_cm_repo
      (test_context ''t1'' ''1'' (test_request absent_part absent_part) (Inr []))
      (test_store [(''t1/a-1.tgz'', [1])] [], [])
     = (JSON 200 (H objectDeletedResponse),
        (test_store [] [], [DeleteCall ''t1/a-1.tgz'', DeleteCall ''t1/a-1.tgz.prov'']))"
proof -
  let ?srv = "test_server False :: (mem_store, string) MultiTenantServer"
  have absent: "DeleteObject (StorageBackend ?srv) ''t1/a-1.tgz'' (test_store [] [])
      = (Some ErrNotFound, test_store [] [])"
    by (simp add: test_server_sel mem_sel mem_DeleteObject_def test_store_def)
  have present: "DeleteObject (StorageBackend ?srv) ''t1/a-1.tgz''
      (test_store [(''t1/a-1.tgz'', [1])] []) = (None, test_store [] [])"
    by (simp add: test_server_sel mem_sel mem_DeleteObject_def test_store_def)
  have prov: "DeleteObject (StorageBackend ?srv) ''t1/a-1.tgz.prov'' (test_store [] [])
      = (Some ErrNotFound, test_store [] [])"
    by (simp add: test_server_sel mem_sel mem_DeleteObject_def test_store_def)
  show ?thesis
    using deleteChartVersion_outcomes [where server = ?srv and cm = test_cm_repo
        and c = "test_context ''t1'' ''1'' (test_request absent_part absent_part) (Inr [])"
        and s = "test_store [] []" and log = "[]" and err = ErrNotFound
        and ?s1.0 = "test_store [] []", OF refl refl]
      deleteChartVersion_outcomes [where server = ?srv and cm = test_cm_repo
        and c = "test_context ''t1'' ''1'' (test_request absent_part absent_part) (Inr [])"
        and s = "test_store [(''t1/a-1.tgz'', [1])] []" and log = "[]"
        and ?s1.0 = "test_store [] []" and r = "Some ErrNotFound"
        and ?s2.0 = "test_store [] []", OF refl refl]
      absent present prov
    by (simp add: test_context_sel test_cm_repo_sel Join_t1_pkg Join_t1_prov)
qed

subsection \<open>Uploading through a form: errors before the writes\<close>

text \<open>
  C5. When the extraction of a form field returns an error (a read error, a
  filename function rejecting the content, or a conflict), the form handler answers
  with that status and error and makes no write: the only calls it has added to the
  log of backend calls are gets (the conflict probes). This holds when the package
  field fails, and when the package field yields a file and the provenance field
  fails; the file extracted first is not written.
\<close>

theorem form_extraction_error_stores_nothing:
  assumes "extractAndValidateFormFile server (Request c) (ChartPostFormFieldName server)
             (ChartPackageFilenameFromContent cm) w = ((p1, status1, e1), w1)"
  shows "(e1 = Some err \<longrightarrow>
            postPackageAndProvenanceRequestHandler server cm c w
              = (JSON status1 (H [(''error'', JString (Error err))]), w1)
            \<and> (\<exists>keys. snd w1 = snd w @ map GetCall keys))
       \<and> (e1 = None \<longrightarrow>
          extractAndValidateFormFile server (Request c) (ProvPostFormFieldName server)
             (ProvenanceFilenameFromContent cm) w1 = ((p2, status2, Some err), w2) \<longrightarrow>
            postPackageAndProvenanceRequestHandler server cm c w
              = (JSON status2 (H [(''error'', JString (Error err))]), w2)
            \<and> (\<exists>keys. snd w2 = snd w @ map GetCall keys))"
proof (intro conjI impI)
  assume "e1 = Some err"
  with assms show "postPackageAndProvenanceRequestHandler server cm c w
      = (JSON status1 (H [(''error'', JString (Error err))]), w1)"
    by (simp add: postPackageAndProvenanceRequestHandler_def extractFiles_two)
  from assms show "\<exists>keys. snd w1 = snd w @ map GetCall keys"
    by (rule extract_log)
next
  assume none: "e1 = None"
    and second: "extractAndValidateFormFile server (Request c) (ProvPostFormFieldName server)
             (ProvenanceFilenameFromContent cm) w1 = ((p2, status2, Some err), w2)"
  with assms show "postPackageAndProvenanceRequestHandler server cm c w
      = (JSON status2 (H [(''error'', JString (Error err))]), w2)"
    by (simp add: postPackageAndProvenanceRequestHandler_def extractFiles_two)
  from assms obtain ks1 where "snd w1 = snd w @ map GetCall ks1"
    using extract_log by blast
  moreover from second obtain ks2 where "snd w2 = snd w1 @ map GetCall ks2"
    using extract_log by blast
  ultimately have "snd w2 = snd w @ map GetCall (ks1 @ ks2)" by simp
  then show "\<exists>keys. snd w2 = snd w @ map GetCall keys" by blast
qed

theorem form_extraction_error_stores_nothing_witness:
  "postPackageAndProvenanceRequestHandler (test_server False) test_cm_repo
      (test_context ''t1'' ''1'' (test_request (file_part [1]) (file_part [2])) (Inr []))
      (test_store [(''a-1.tgz'', [9])] [], [])
     = (JSON 409 (H [(''error'', JString ''a-1.tgz already exists'')]),
        (test_store [(''a-1.tgz'', [9])] [], [GetCall ''a-1.tgz'']))
   \<and> postPackageAndProvenanceRequestHandler (test_server False) test_cm_repo
      (test_context ''t1'' ''1'' (test_request (file_part [1]) (file_part [])) (Inr []))
      (test_store [] [], [])
     = (JSON 400 (H [(''error'', JString ''not a provenance file'')]),
        (test_store [] [], [GetCall ''a-1.tgz'']))"
proof -
  let ?srv = "test_server False :: (mem_store, string) MultiTenantServer"
  let ?c1 = "test_context ''t1'' ''1'' (test_request (file_part [1]) (file_part [2])) (Inr [])"
  let ?c2 = "test_context ''t1'' ''1'' (test_request (file_part [1]) (file_part [])) (Inr [])"
  let ?pkg = "\<lparr>filename = ''a-1.tgz'', content = [1], field = ''chart''\<rparr>"
  have conflict: "extractAndValidateFormFile ?srv (Request ?c1) (ChartPostFormFieldName ?srv)
      (ChartPackageFilenameFromContent test_cm_repo) (test_store [(''a-1.tgz'', [9])] [], [])
    = ((None, 409, Some (errorString ''a-1.tgz already exists'')),
       (test_store [(''a-1.tgz'', [9])] [], [GetCall ''a-1.tgz'']))"
    by (simp add: extractAndValidateFormFile_def call_GetObject_def mem_GetObject_def
        test_store_sel test_eval)
  have chart_ok: "extractAndValidateFormFile ?srv (Request ?c2) (ChartPostFormFieldName ?srv)
      (ChartPackageFilenameFromContent test_cm_repo) (test_store [] [], [])
    = ((Some ?pkg, 200, None), (test_store [] [], [GetCall ''a-1.tgz'']))"
    by (simp add: extractAndValidateFormFile_def call_GetObject_def mem_GetObject_def
        test_store_sel test_eval)
  have prov_bad: "extractAndValidateFormFile ?srv (Request ?c2) (ProvPostFormFieldName ?srv)
      (ProvenanceFilenameFromContent test_cm_repo) (test_store [] [], [GetCall ''a-1.tgz''])
    = ((None, 400, Some (errorString ''not a provenance file'')),
       (test_store [] [], [GetCall ''a-1.tgz'']))"
    by (simp add: extractAndValidateFormFile_def test_eval)
  show ?thesis
    using form_extraction_error_stores_nothing [OF conflict,
        where err = "errorString ''a-1.tgz already exists''"]
      form_extraction_error_stores_nothing [OF chart_ok,
        where err = "errorString ''not a provenance file''" and ?p2.0 = None
          and ?status2.0 = 400 and ?w2.0 = "(test_store [] [], [GetCall ''a-1.tgz''])"]
      prov_bad
    by simp
qed

text \<open>
  C6. When neither configured field carries a file (\<^verbatim>\<open>FormFile\<close> returns a \<^verbatim>\<open>nil\<close> file or
  a \<^verbatim>\<open>nil\<close> header for both), the form handler answers 400 with a message that names
  both configured field names, and the backend state and the log of backend calls
  are what they were: no get, put or delete is made.
\<close>

theorem form_without_files:
  assumes "FormFile (Request c) (ChartPostFormFieldName server) = (file1, header1, e1)"
    and "file1 = None \<or> header1 = None"
    and "FormFile (Request c) (ProvPostFormFieldName server) = (file2, header2, e2)"
    and "file2 = None \<or> header2 = None"
  shows "postPackageAndProvenanceRequestHandler server cm c w
     = (JSON 400 (H [(''error'', JString
          (''no package or provenance file found in form fields ''
             @ ChartPostFormFieldName server @ '' and '' @ ProvPostFormFieldName server))]), w)"
  by (rule no_candidates) (rule extract_absent [OF assms(1,2)], rule extract_absent [OF assms(3,4)])

theorem form_without_files_witness:
  "postPackageAndProvenanceRequestHandler (test_server False) test_cm_repo
      (test_context ''t1'' ''1'' (test_request absent_part absent_part) (Inr []))
      (test_store [] [], [])
     = (JSON 400 (H [(''error'', JString
          ''no package or provenance file found in form fields chart and prov'')]),
        (test_store [] [], []))"
proof -
  let ?srv = "test_server False :: (mem_store, string) MultiTenantServer"
  let ?c = "test_context ''t1'' ''1'' (test_request absent_part absent_part) (Inr [])"
  have chart: "FormFile (Request ?c) (ChartPostFormFieldName ?srv)
      = (None, None, Some ErrMissingFile)"
    by (simp add: test_eval)
  have prov: "FormFile (Request ?c) (ProvPostFormFieldName ?srv)
      = (None, None, Some ErrMissingFile)"
    by (simp add: test_eval)
  show ?thesis
    using form_without_files [OF chart _ prov, where cm = test_cm_repo
        and w = "(test_store [] [], [])"]
    by (simp add: test_server_sel)
qed

text \<open>
  C10. \<^verbatim>\<open>extractAndValidateFormFile\<close> assigns the error of \<^verbatim>\<open>req.FormFile\<close> to \<^verbatim>\<open>_\<close> and
  decides on the file and the header alone. A failure of \<^verbatim>\<open>req.FormFile\<close> that comes
  with a \<^verbatim>\<open>nil\<close> file or a \<^verbatim>\<open>nil\<close> header (a missing field, a body that cannot be
  parsed) is therefore handled as an absent field, whatever the error is: the
  extraction returns no file, status 200 and no error, without touching the backend.
  A request for which \<^verbatim>\<open>FormFile\<close> fails in this way on both fields gets the 400
  answer for a form without files, and the error of \<^verbatim>\<open>FormFile\<close> is not reported.
\<close>

theorem form_file_error_without_file_is_dropped:
  "(FormFile req field' = (formFile, fileHeader, Some err) \<longrightarrow> formFile = None \<or> fileHeader = None \<longrightarrow>
      extractAndValidateFormFile server req field' fnFromContent w = ((None, 200, None), w))
   \<and> (FormFile (Request c) (ChartPostFormFieldName server) = (formFile1, fileHeader1, Some err1) \<longrightarrow>
      formFile1 = None \<or> fileHeader1 = None \<longrightarrow>
      FormFile (Request c) (ProvPostFormFieldName server) = (formFile2, fileHeader2, Some err2) \<longrightarrow>
      formFile2 = None \<or> fileHeader2 = None \<longrightarrow>
      postPackageAndProvenanceRequestHandler server cm c w
        = (JSON 400 (H [(''error'', JString
            (''no package or provenance file found in form fields ''
               @ ChartPostFormFieldName server @ '' and '' @ ProvPostFormFieldName server))]), w))"
proof (intro conjI impI)
  assume "FormFile req field' = (formFile, fileHeader, Some err)" and "formFile = None \<or> fileHeader = None"
  then show "extractAndValidateFormFile server req field' fnFromContent w = ((None, 200, None), w)"
    by (rule extract_absent)
next
  assume chart: "FormFile (Request c) (ChartPostFormFieldName server) = (formFile1, fileHeader1, Some err1)"
    and nil1: "formFile1 = None \<or> fileHeader1 = None"
    and prov: "FormFile (Request c) (ProvPostFormFieldName server) = (formFile2, fileHeader2, Some err2)"
    and nil2: "formFile2 = None \<or> fileHeader2 = None"
  show "postPackageAndProvenanceRequestHandler server cm c w
        = (JSON 400 (H [(''error'', JString
            (''no package or provenance file found in form fields ''
               @ ChartPostFormFieldName server @ '' and '' @ ProvPostFormFieldName server))]), w)"
    by (rule no_candidates) (rule extract_absent [OF chart nil1], rule extract_absent [OF prov nil2])
qed

theorem form_file_error_without_file_is_dropped_witness:
  "extractAndValidateFormFile (test_server False)
      (test_request (None, None, Some (errorString ''multipart: NextPart: EOF''))
         (None, Some (), Some (errorString ''open: no such file'')))
      ''chart'' (ChartPackageFilenameFromContent test_cm_repo) (test_store [] [], [])
     = ((None, 200, None), (test_store [] [], []))
   \<and> postPackageAndProvenanceRequestHandler (test_server False) test_cm_repo
      (test_context ''t1'' ''1''
         (test_request (None, None, Some (errorString ''multipart: NextPart: EOF''))
            (None, Some (), Some (errorString ''open: no such file''))) (Inr []))
      (test_store [] [], [])
     = (JSON 400 (H [(''error'', JString
          ''no package or provenance file found in form fields chart and prov'')]),
        (test_store [] [], []))"
proof -
  let ?srv = "test_server False :: (mem_store, string) MultiTenantServer"
  let ?eof = "errorString ''multipart: NextPart: EOF''"
  let ?open = "errorString ''open: no such file''"
  let ?req = "test_request (None, None, Some ?eof) (None, Some (), Some ?open)"
  let ?c = "test_context ''t1'' ''1'' ?req (Inr [])"
  show ?thesis
    using form_file_error_without_file_is_dropped [where req = ?req and field' = "''chart''"
        and formFile = None and fileHeader = None and err = ?eof
        and ?formFile1.0 = None and ?fileHeader1.0 = None and ?err1.0 = ?eof
        and ?formFile2.0 = None and ?fileHeader2.0 = "Some ()" and ?err2.0 = ?open
        and c = ?c and server = ?srv
        and cm = test_cm_repo and w = "(test_store [] [], [])"
        and fnFromContent = "ChartPackageFilenameFromContent test_cm_repo"]
    by (simp add: test_server_sel test_context_sel test_request_sel)
qed

text \<open>
  Not every failure of the extraction is dropped. When \<^verbatim>\<open>req.FormFile\<close> returns a file
  and a header, the extraction goes on even if an error came with them, and a file
  that cannot be read is reported: the extraction returns status 500 with the read
  error, and the form handler answers 500 instead of the 400 of a form without
  files.
\<close>

theorem form_file_failure_with_file_is_reported:
  "extractAndValidateFormFile (test_server False)
      (test_request
         (Some (Inl (errorString ''unexpected EOF'')), Some (),
          Some (errorString ''unexpected EOF''))
         absent_part)
      ''chart'' (ChartPackageFilenameFromContent test_cm_repo) (test_store [] [], [])
     = ((None, 500, Some (errorString ''unexpected EOF'')), (test_store [] [], []))
   \<and> postPackageAndProvenanceRequestHandler (test_server False) test_cm_repo
      (test_context ''t1'' ''1''
         (test_request
            (Some (Inl (errorString ''unexpected EOF'')), Some (),
             Some (errorString ''unexpected EOF''))
            absent_part) (Inr []))
      (test_store [] [], [])
     = (JSON 500 (H [(''error'', JString ''unexpected EOF'')]), (test_store [] [], []))"
  by (simp add: postPackageAndProvenanceRequestHandler_def extractFiles_two
      extractAndValidateFormFile_def test_eval)

subsection \<open>Uploading through a form: keys without the tenant\<close>

text \<open>
  C1. The claim asks that after a failed write every object written by the call is
  deleted again. The clean-up loop deletes \<^verbatim>\<open>ppf.filename\<close>, while the write used
  \<^verbatim>\<open>pathutil.Join(repo, ppf.filename)\<close>. On the test server, tenant \<^verbatim>\<open>t1\<close> uploads a
  package and a provenance file; the package write succeeds and the provenance write
  fails. The answer is 500 with the backend's message, the clean-up deletes the key
  \<^verbatim>\<open>a-1.tgz\<close>, and the object \<^verbatim>\<open>t1/a-1.tgz\<close> written by the call stays in the store.
\<close>

theorem rollback_deletes_bare_filename:
  "postPackageAndProvenanceRequestHandler (test_server True) test_cm_repo
      (test_context ''t1'' ''1'' (test_request (file_part [1]) (file_part [2])) (Inr []))
      (test_store [] [(PutCall ''t1/a-1.tgz.prov'' [2], errorString ''disk full'')], [])
   = (JSON 500 (H [(''error'', JString ''disk full'')]),
      (test_store [(''t1/a-1.tgz'', [1])]
         [(PutCall ''t1/a-1.tgz.prov'' [2], errorString ''disk full'')],
       [PutCall ''t1/a-1.tgz'' [1], PutCall ''t1/a-1.tgz.prov'' [2], DeleteCall ''a-1.tgz'']))"
  by (simp add: postPackageAndProvenanceRequestHandler_def extractFiles_two
      extractAndValidateFormFile_def call_PutObject_def call_DeleteObject_def
      mem_PutObject_def mem_DeleteObject_def test_store_def test_eval)

text \<open>
  C2. The claim asks that the conflict probe of the form upload reads the
  tenant-scoped key that the write uses. \<^verbatim>\<open>extractAndValidateFormFile\<close> probes the
  bare filename. On the test server with overwriting disabled, the store holds
  \<^verbatim>\<open>t1/a-1.tgz\<close> and tenant \<^verbatim>\<open>t1\<close> uploads another package of that name: the probe reads
  \<^verbatim>\<open>a-1.tgz\<close>, finds nothing, and the write replaces the existing object with
  answer 201.
\<close>

theorem form_probe_uses_bare_filename:
  "postPackageAndProvenanceRequestHandler (test_server False) test_cm_repo
      (test_context ''t1'' ''1'' (test_request (file_part [2]) absent_part) (Inr []))
      (test_store [(''t1/a-1.tgz'', [1])] [], [])
   = (JSON 201 (H objectSavedResponse),
      (test_store [(''t1/a-1.tgz'', [2])] [],
       [GetCall ''a-1.tgz'', PutCall ''t1/a-1.tgz'' [2]]))"
  by (simp add: postPackageAndProvenanceRequestHandler_def extractFiles_two
      extractAndValidateFormFile_def call_PutObject_def call_GetObject_def
      mem_PutObject_def mem_GetObject_def test_store_def test_eval)

subsection \<open>Uploading a raw body\<close>

text \<open>
  C3. A raw body that \<^verbatim>\<open>ChartPackageFilenameFromContent\<close> rejects is answered with
  status 500, the status of the read failure and of the write failure, and no
  backend call is made. The form handler answers the same rejected content
  with status 400.
\<close>

theorem malformed_package_is_status_500:
  "postPackageRequestHandler (test_server False) test_cm_repo
      (test_context ''t1'' ''1'' (test_request absent_part absent_part) (Inr []))
      (test_store [] [], [])
     = (JSON 500 (H [(''error'', JString ''not a chart'')]), (test_store [] [], []))
   \<and> postPackageAndProvenanceRequestHandler (test_server False) test_cm_repo
      (test_context ''t1'' ''1'' (test_request (file_part []) absent_part) (Inr []))
      (test_store [] [], [])
     = (JSON 400 (H [(''error'', JString ''not a chart'')]), (test_store [] [], []))"
  by (simp add: postPackageRequestHandler_def postPackageAndProvenanceRequestHandler_def
      extractFiles_two extractAndValidateFormFile_def test_eval)

text \<open>
  C7. On the store in memory, with overwriting disabled: when the body \<open>B\<close> is a
  package that the filename function names \<open>fn\<close>, the store holds no object at the
  tenant-scoped key of \<open>fn\<close>, and the get and the put on that key do not fail, the
  first upload answers 201 "saved" and the second upload of \<open>B\<close> answers 409 "file
  already exists". Afterwards the store holds \<open>B\<close> at that key and is unchanged at
  every other key; the second call writes nothing.
\<close>

theorem ingest_twice_conflict:
  assumes "GetRawData c = Inr B"
    and "ChartPackageFilenameFromContent cm B = Inr fn"
    and "\<not> AllowOverwrite server"
    and "StorageBackend server = mem_backend"
    and "key = pathutil_Join (GetString c ''repo'') fn"
    and "objects s key = None"
    and "failing s (GetCall key) = None"
    and "failing s (PutCall key B) = None"
    and "s' = s\<lparr>objects := (objects s)(key \<mapsto> B)\<rparr>"
  shows "postPackageRequestHandler server cm c (s, log)
           = (JSON 201 (H objectSavedResponse), (s', log @ [GetCall key, PutCall key B]))
       \<and> postPackageRequestHandler server cm c (s', log @ [GetCall key, PutCall key B])
           = (JSON 409 (H alreadyExistsErrorResponse),
              (s', log @ [GetCall key, PutCall key B, GetCall key]))
       \<and> objects s' key = Some B \<and> (\<forall>k. k \<noteq> key \<longrightarrow> objects s' k = objects s k)"
  using assms
  by (simp add: postPackageRequestHandler_def call_GetObject_def call_PutObject_def
      mem_backend_def mem_GetObject_def mem_PutObject_def Let_def)

theorem ingest_twice_conflict_witness:
  "postPackageRequestHandler (test_server False) test_cm_repo
      (test_context ''t1'' ''1'' (test_request absent_part absent_part) (Inr [1]))
      (test_store [] [], [])
     = (JSON 201 (H objectSavedResponse),
        (test_store [(''t1/a-1.tgz'', [1])] [],
         [GetCall ''t1/a-1.tgz'', PutCall ''t1/a-1.tgz'' [1]]))
   \<and> postPackageRequestHandler (test_server False) test_cm_repo
      (test_context ''t1'' ''1'' (test_request absent_part absent_part) (Inr [1]))
      (test_store [(''t1/a-1.tgz'', [1])] [],
       [GetCall ''t1/a-1.tgz'', PutCall ''t1/a-1.tgz'' [1]])
     = (JSON 409 (H alreadyExistsErrorResponse),
        (test_store [(''t1/a-1.tgz'', [1])] [],
         [GetCall ''t1/a-1.tgz'', PutCall ''t1/a-1.tgz'' [1], GetCall ''t1/a-1.tgz'']))"
proof -
  let ?srv = "test_server False :: (mem_store, string) MultiTenantServer"
  let ?c = "test_context ''t1'' ''1'' (test_request absent_part absent_part) (Inr [1])"
  have after: "test_store [(''t1/a-1.tgz'', [1])] []
      = (test_store [] []) \<lparr>objects := (objects (test_store [] []))(''t1/a-1.tgz'' \<mapsto> [1])\<rparr>"
    by (simp add: test_store_def)
  show ?thesis
    using ingest_twice_conflict [where c = ?c and cm = test_cm_repo and server = ?srv
        and B = "[1]" and fn = "''a-1.tgz''" and key = "''t1/a-1.tgz''"
        and s = "test_store [] []" and s' = "test_store [(''t1/a-1.tgz'', [1])] []"
        and log = "[]", OF _ _ _ _ _ _ _ _ after]
    by (simp add: test_eval test_store_sel)
qed

text \<open>
  C9. In the handler for a raw provenance body, with overwriting disabled, the
  conflict probe reads the key \<^verbatim>\<open>pathutil.Join(repo, filename)\<close> and, when the probe finds
  nothing and the write succeeds, the write goes to the key \<^verbatim>\<open>filename\<close>, without
  the tenant. The written key does not depend on the request context, so uploads of
  provenance files with one name from different tenants write the same object. In
  the test run, tenant \<^verbatim>\<open>t2\<close> replaces what tenant \<^verbatim>\<open>t1\<close> stored, although overwriting
  is disabled.
\<close>

theorem provenance_written_without_tenant_prefix:
  assumes "GetRawData c = Inr data"
    and "ProvenanceFilenameFromContent cm data = Inr fn"
    and "\<not> AllowOverwrite server"
    and "GetObject (StorageBackend server) (pathutil_Join (GetString c ''repo'') fn) s = (Inl e, s1)"
    and "PutObject (StorageBackend server) fn data s1 = (None, s2)"
  shows "postProvenanceFileRequestHandler server cm c (s, log)
     = (JSON 201 (H objectSavedResponse),
        (s2, log @ [GetCall (pathutil_Join (GetString c ''repo'') fn), PutCall fn data]))"
  using assms
  by (simp add: postProvenanceFileRequestHandler_def call_GetObject_def call_PutObject_def Let_def)

theorem provenance_written_without_tenant_prefix_witness:
  "postProvenanceFileRequestHandler (test_server False) test_cm_repo
      (test_context ''t1'' ''1'' (test_request absent_part absent_part) (Inr [1]))
      (test_store [] [], [])
     = (JSON 201 (H objectSavedResponse),
        (test_store [(''a-1.tgz.prov'', [1])] [],
         [GetCall ''t1/a-1.tgz.prov'', PutCall ''a-1.tgz.prov'' [1]]))
   \<and> postProvenanceFileRequestHandler (test_server False) test_cm_repo
      (test_context ''t2'' ''1'' (test_request absent_part absent_part) (Inr [2]))
      (test_store [(''a-1.tgz.prov'', [1])] [], [])
     = (JSON 201 (H objectSavedResponse),
        (test_store [(''a-1.tgz.prov'', [2])] [],
         [GetCall ''t2/a-1.tgz.prov'', PutCall ''a-1.tgz.prov'' [2]]))"
proof -
  let ?srv = "test_server False :: (mem_store, string) MultiTenantServer"
  let ?c1 = "test_context ''t1'' ''1'' (test_request absent_part absent_part) (Inr [1])"
  let ?c2 = "test_context ''t2'' ''1'' (test_request absent_part absent_part) (Inr [2])"
  have probe1: "GetObject (StorageBackend ?srv)
      (pathutil_Join (GetString ?c1 ''repo'') ''a-1.tgz.prov'') (test_store [] [])
      = (Inl ErrNotFound, test_store [] [])"
    by (simp add: mem_GetObject_def test_store_sel test_eval)
  have put1: "PutObject (StorageBackend ?srv) ''a-1.tgz.prov'' [1] (test_store [] [])
      = (None, test_store [(''a-1.tgz.prov'', [1])] [])"
    by (simp add: mem_PutObject_def test_store_def test_eval)
  have probe2: "GetObject (StorageBackend ?srv)
      (pathutil_Join (GetString ?c2 ''repo'') ''a-1.tgz.prov'')
      (test_store [(''a-1.tgz.prov'', [1])] [])
      = (Inl ErrNotFound, test_store [(''a-1.tgz.prov'', [1])] [])"
    by (simp add: mem_GetObject_def test_store_sel test_eval Join_t2_prov)
  have put2: "PutObject (StorageBackend ?srv) ''a-1.tgz.prov'' [2]
      (test_store [(''a-1.tgz.prov'', [1])] [])
      = (None, test_store [(''a-1.tgz.prov'', [2])] [])"
    by (simp add: mem_PutObject_def test_store_def test_eval)
  show ?thesis
    using provenance_written_without_tenant_prefix [where c = ?c1 and cm = test_cm_repo
        and server = ?srv and data = "[1]" and log = "[]", OF _ _ _ probe1 put1]
      provenance_written_without_tenant_prefix [where c = ?c2 and cm = test_cm_repo
        and server = ?srv and data = "[2]" and log = "[]", OF _ _ _ probe2 put2]
    by (simp add: test_eval Join_t2_prov)
qed

subsection \<open>Reading the latest version\<close>

text \<open>
  C8. A request for the version \<^verbatim>\<open>latest\<close> is answered with the record that the index
  file's \<^verbatim>\<open>Get\<close> returns for the empty version, which is how the index is asked for
  the highest version of a chart: the handler replaces the sentinel by the empty
  string and forwards it. The resolution itself is the index's.
\<close>

theorem latest_is_forwarded:
  assumes "Param c ''version'' = ''latest''"
    and "getIndexFile server (GetString c ''repo'') = Inr indexFile"
    and "Get indexFile (Param c ''name'') [] = Inr chartVersion"
  shows "getChartVersionRequestHandler server c w = (JSON 200 (ChartVersionJSON chartVersion), w)"
  using assms by (simp add: getChartVersionRequestHandler_def)

theorem latest_is_forwarded_witness:
  "Get test_index ''a'' [] = Inr ''a-2''
   \<and> getChartVersionRequestHandler (test_server False)
      (test_context ''t1'' ''latest'' (test_request absent_part absent_part) (Inr []))
      (test_store [] [], [])
     = (JSON 200 (ChartVersionJSON ''a-2''), (test_store [] [], []))"
proof -
  let ?srv = "test_server False :: (mem_store, string) MultiTenantServer"
  let ?c = "test_context ''t1'' ''latest'' (test_request absent_part absent_part) (Inr [])"
  have version: "Param ?c ''version'' = ''latest''"
    by (simp add: test_context_sel)
  have index: "getIndexFile ?srv (GetString ?c ''repo'') = Inr test_index"
    by (simp add: test_server_def test_context_sel)
  have highest: "Get test_index (Param ?c ''name'') [] = Inr ''a-2''"
    by (simp add: test_index_def test_context_sel)
  show ?thesis
    using latest_is_forwarded [OF version index highest, where w = "(test_store [] [], [])"]
      highest
    by (simp add: test_context_sel)
qed

end
